theory Spec2Isabelle
  imports Complex_Main
begin

section \<open>Numeric model\<close>

text \<open>
  The program computes on C++ \<^verbatim>\<open>double\<close> values. They are modelled as real numbers,
  without rounding, overflow or signed zeros. A value that may be NaN is a \<open>real option\<close>,
  with \<open>None\<close> for NaN: the program makes NaN in \<^verbatim>\<open>sqrt\<close> of a negative number and in
  \<^verbatim>\<open>0 * inf\<close>, NaN goes through every arithmetic operation, and every comparison with NaN
  is false. A zero wavelength, for which \<^verbatim>\<open>1 / lambda\<close> is an infinity in the program, is
  outside the model: the statements about residual values assume a nonzero wavelength.
\<close>

type_synonym double = "real option"

definition d_sqrt :: "real \<Rightarrow> double" where
  "d_sqrt x = (if x < 0 then None else Some (sqrt x))"

definition d_mul :: "double \<Rightarrow> double \<Rightarrow> double" where
  "d_mul x y = (case x of None \<Rightarrow> None
                 | Some u \<Rightarrow> (case y of None \<Rightarrow> None | Some v \<Rightarrow> Some (u * v)))"

definition d_fabs :: "double \<Rightarrow> double" where
  "d_fabs x = map_option abs x"

definition d_gt :: "double \<Rightarrow> real \<Rightarrow> bool" where
  "d_gt x c = (case x of None \<Rightarrow> False | Some u \<Rightarrow> u > c)"

definition d_lt :: "double \<Rightarrow> real \<Rightarrow> bool" where
  "d_lt x c = (case x of None \<Rightarrow> False | Some u \<Rightarrow> u < c)"

definition d_min :: "double \<Rightarrow> double \<Rightarrow> double" where
  \<comment> \<open>\<^verbatim>\<open>std::min(x, y)\<close> is \<^verbatim>\<open>(y < x) ? y : x\<close>\<close>
  "d_min x y = (case x of None \<Rightarrow> x
                 | Some u \<Rightarrow> (case y of None \<Rightarrow> x | Some v \<Rightarrow> if v < u then y else x))"

text \<open>
  A C++ \<^verbatim>\<open>int\<close> has 32 bits. \<open>int32 x\<close> is the value an \<^verbatim>\<open>int\<close> holds after the
  integer \<open>x\<close> has been computed in it: \<open>x\<close> itself between -2^31 and 2^31 - 1, and wrapped
  around outside that range, as the compiled program does (the C++ standard leaves signed
  overflow undefined).
\<close>

definition int32 :: "int \<Rightarrow> int" where
  "int32 x = (x + 2 ^ 31) mod 2 ^ 32 - 2 ^ 31"

definition atan2 :: "real \<Rightarrow> real \<Rightarrow> real" where
  \<comment> \<open>the C library's \<^verbatim>\<open>atan2(y, x)\<close> on finite arguments\<close>
  "atan2 y x =
     (if 0 < x then arctan (y / x)
      else if x < 0 then (if 0 \<le> y then arctan (y / x) + pi else arctan (y / x) - pi)
      else if 0 < y then pi / 2
      else if y < 0 then - (pi / 2)
      else 0)"

section \<open>Root finder (libopt.h)\<close>

datatype status_code = CONVERGED | DIVERGED | INVALID_RANGE

record Status =
  status :: status_code
  iterations :: int
  residual :: double

text \<open>
  The loop of \<^verbatim>\<open>opt::bisection\<close>. The source narrows the bracket through the pointers
  \<^verbatim>\<open>pa = &a\<close> and \<^verbatim>\<open>pb = &b\<close>, so the parameters \<^verbatim>\<open>a\<close> and \<^verbatim>\<open>b\<close> themselves are
  overwritten: the state holds one \<open>a\<close> and one \<open>b\<close>. The result is \<open>Inl\<close> for the
  \<^verbatim>\<open>return\<close> inside the loop and \<open>Inr\<close> with the state (a, b, iter) at a normal exit.
\<close>

function bisection_loop ::
  "(real \<Rightarrow> double) \<Rightarrow> real \<Rightarrow> int \<Rightarrow> real \<Rightarrow> real \<Rightarrow> double \<Rightarrow> double \<Rightarrow> real \<Rightarrow> double \<Rightarrow> int
     \<Rightarrow> (real \<times> Status) + (real \<times> real \<times> int)" where
  "bisection_loop f tol max_iter a b fa fb mid fmid iter =
     (if mid > tol \<and> d_gt (d_fabs fmid) tol \<and> iter < max_iter then
        (let mid' = (a + b) / 2; fmid' = f mid' in
         if d_lt (d_fabs fmid') tol then
           Inl (mid', \<lparr>status = CONVERGED, iterations = iter, residual = d_fabs fmid'\<rparr>)
         else if d_lt (d_mul fa fmid') 0 then
           bisection_loop f tol max_iter a mid' fa fmid' mid' fmid' (iter + 1)
         else
           bisection_loop f tol max_iter mid' b fmid' fb mid' fmid' (iter + 1))
      else Inr (a, b, iter))"
  by pat_completeness auto
termination
  by (relation "measure (\<lambda>(f, tol, max_iter, a, b, fa, fb, mid, fmid, iter). nat (max_iter - iter))")
     auto

declare bisection_loop.simps [simp del]

definition bisection_finish :: "(real \<Rightarrow> double) \<Rightarrow> real \<Rightarrow> real \<Rightarrow> real \<Rightarrow> int \<Rightarrow> real \<times> Status" where
  \<comment> \<open>the code after the loop; \<open>a\<close> and \<open>b\<close> are the variables the loop has overwritten\<close>
  "bisection_finish f tol a b iter =
     (let mid = (a + b) / 2;
          fmid = f mid;
          st = (if (b - a) / 2 \<le> tol then CONVERGED else DIVERGED);
          st' = (if \<bar>mid - b\<bar> < tol \<or> \<bar>mid - a\<bar> < tol then DIVERGED else st)
      in (mid, \<lparr>status = st', iterations = iter, residual = d_fabs fmid\<rparr>))"

definition bisection :: "(real \<Rightarrow> double) \<Rightarrow> real \<Rightarrow> real \<Rightarrow> real \<Rightarrow> int \<Rightarrow> real \<times> Status" where
  "bisection f a b tol max_iter =
     (let fa = f a; fb = f b in
      if d_gt (d_mul fa fb) 0 then
        (a, \<lparr>status = INVALID_RANGE, iterations = 0, residual = d_min (d_fabs fa) (d_fabs fb)\<rparr>)
      else
        (let mid = (a + b) / 2; fmid = f mid in
         case bisection_loop f tol max_iter a b fa fb mid fmid 0 of
           Inl r \<Rightarrow> r
         | Inr (a', b', iter) \<Rightarrow> bisection_finish f tol a' b' iter))"

definition default_tol :: real where
  "default_tol = 1 / 10000"

definition default_max_iter :: int where
  "default_max_iter = 100"

text \<open>The function of the bisection test in test/slab.cc.\<close>

definition test_f :: "real \<Rightarrow> double" where
  "test_f x = Some (2 * x - 5)"

text \<open>
  The post-loop status as the specification words it: the forced DIVERGED compares the final
  midpoint with the bracket endpoints that were passed in (\<open>a0\<close>, \<open>b0\<close>), and otherwise
  the status is CONVERGED exactly when the half-width of the narrowed bracket (\<open>a\<close>, \<open>b\<close>)
  is at most the tolerance.
\<close>

definition spec_final_status :: "real \<Rightarrow> real \<Rightarrow> real \<Rightarrow> real \<Rightarrow> real \<Rightarrow> status_code" where
  "spec_final_status tol a0 b0 a b =
     (let mid = (a + b) / 2 in
      if \<bar>mid - b0\<bar> < tol \<or> \<bar>mid - a0\<bar> < tol then DIVERGED
      else if (b - a) / 2 \<le> tol then CONVERGED
      else DIVERGED)"

text \<open>A linear function with its root at 3, used to run the loop to its iteration budget.\<close>

definition linear_f :: "real \<Rightarrow> double" where
  "linear_f x = Some (4 * (x - 3))"

section \<open>Slab characteristic equation and solver (libeim.h)\<close>

datatype Mode = TE | TM

text \<open>
  \<^verbatim>\<open>slab_equation<mode>\<close>. Each of the three square roots is NaN below zero, and a NaN
  there makes the returned residual NaN. The mode order \<open>j\<close> is a C++ \<^verbatim>\<open>int\<close>, and
  \<^verbatim>\<open>j+1\<close> is computed in \<^verbatim>\<open>int\<close> before it is multiplied by \<^verbatim>\<open>pi\<close>: at the largest
  \<^verbatim>\<open>int\<close> it wraps around to the smallest.
\<close>

definition slab_equation ::
  "Mode \<Rightarrow> real \<Rightarrow> real \<Rightarrow> real \<Rightarrow> real \<Rightarrow> real \<Rightarrow> int \<Rightarrow> real \<Rightarrow> double" where
  "slab_equation mode n1 n2 n3 lambda W j neff =
     (let k0 = 2 * pi * (1 / lambda) in
      case d_sqrt (neff ^ 2 - n1 ^ 2) of None \<Rightarrow> None | Some s1 \<Rightarrow>
      (case d_sqrt (n2 ^ 2 - neff ^ 2) of None \<Rightarrow> None | Some s2 \<Rightarrow>
      (case d_sqrt (neff ^ 2 - n3 ^ 2) of None \<Rightarrow> None | Some s3 \<Rightarrow>
        (let gamma1 = k0 * s1; gamma2 = k0 * s2; gamma3 = k0 * s3;
             lhs = gamma2 * W;
             rhs = (case mode of
                      TE \<Rightarrow> - atan2 gamma2 gamma1 - atan2 gamma2 gamma3 + of_int (int32 (j + 1)) * pi
                    | TM \<Rightarrow> - atan2 (n1 ^ 2 * gamma2) (n2 ^ 2 * gamma1)
                            - atan2 (n3 ^ 2 * gamma2) (n2 ^ 2 * gamma3) + of_int (int32 (j + 1)) * pi)
         in Some (rhs - lhs)))))"

text \<open>
  \<^verbatim>\<open>solve_slab\<close>, the sequential branch (\<^verbatim>\<open>PAR == 0\<close>); the asynchronous branch runs the
  same two root searches and builds the same pair.
\<close>

definition solve_slab :: "real \<Rightarrow> real \<Rightarrow> real \<Rightarrow> real \<Rightarrow> real \<Rightarrow> int \<Rightarrow> real \<times> real" where
  "solve_slab n1 n2 n3 lambda W j =
     (let nmin = min n1 n3;
          r_TE = bisection (slab_equation TE n1 n2 n3 lambda W j) nmin n2 default_tol default_max_iter;
          r_TM = bisection (slab_equation TM n1 n2 n3 lambda W j) nmin n2 default_tol default_max_iter
      in (if status (snd r_TE) = CONVERGED then fst r_TE else nmin,
          if status (snd r_TM) = CONVERGED then fst r_TM else nmin))"

section \<open>Slot characteristic equations and solver (slot.h)\<close>

definition slot_cosh_equation ::
  "real \<Rightarrow> real \<Rightarrow> real \<Rightarrow> real \<Rightarrow> real \<Rightarrow> real \<Rightarrow> int \<Rightarrow> real \<Rightarrow> double" where
  "slot_cosh_equation n_clad n_core n_slot lambda a b j neff =
     (let k0 = 2 * pi / lambda in
      case d_sqrt (neff * neff - n_slot * n_slot) of None \<Rightarrow> None | Some s_slot \<Rightarrow>
      (case d_sqrt (n_core * n_core - neff * neff) of None \<Rightarrow> None | Some s_core \<Rightarrow>
      (case d_sqrt (neff * neff - n_clad * n_clad) of None \<Rightarrow> None | Some s_clad \<Rightarrow>
        (let gamma_slot = k0 * s_slot; kappa_core = k0 * s_core; gamma_clad = k0 * s_clad;
             term1 = atan2 (n_core * n_core * gamma_clad) (n_clad * n_clad * kappa_core);
             term2 = atan2 (n_core * n_core * gamma_slot * tanh (gamma_slot * a))
                           (n_slot * n_slot * kappa_core);
             lhs = term1 + term2 + of_int j * pi;
             rhs = kappa_core * (b - a)
         in Some (rhs - lhs)))))"

text \<open>
  In \<^verbatim>\<open>slot_sinh_equation\<close> the term \<^verbatim>\<open>1.0 / tanh(gamma_slot * a)\<close> divides by zero when
  \<^verbatim>\<open>gamma_slot * a\<close> is zero and gives an infinity. The product with
  \<^verbatim>\<open>n_core*n_core * gamma_slot\<close> is then NaN when that factor is zero and an infinity of
  its sign otherwise, and \<^verbatim>\<open>atan2\<close> of an infinity and a finite number is a right angle.
\<close>

definition sinh_term2 :: "real \<Rightarrow> real \<Rightarrow> real \<Rightarrow> double" where
  "sinh_term2 p t q =
     (if t = 0 then
        (if p = 0 then None else if 0 < p then Some (pi / 2) else Some (- (pi / 2)))
      else Some (atan2 (p * (1 / t)) q))"

definition slot_sinh_equation ::
  "real \<Rightarrow> real \<Rightarrow> real \<Rightarrow> real \<Rightarrow> real \<Rightarrow> real \<Rightarrow> int \<Rightarrow> real \<Rightarrow> double" where
  "slot_sinh_equation n_clad n_core n_slot lambda a b j neff =
     (let k0 = 2 * pi / lambda in
      case d_sqrt (neff * neff - n_slot * n_slot) of None \<Rightarrow> None | Some s_slot \<Rightarrow>
      (case d_sqrt (n_core * n_core - neff * neff) of None \<Rightarrow> None | Some s_core \<Rightarrow>
      (case d_sqrt (neff * neff - n_clad * n_clad) of None \<Rightarrow> None | Some s_clad \<Rightarrow>
        (let gamma_slot = k0 * s_slot; kappa_core = k0 * s_core; gamma_clad = k0 * s_clad;
             term1 = atan2 (n_core * n_core * gamma_clad) (n_clad * n_clad * kappa_core)
         in case sinh_term2 (n_core * n_core * gamma_slot) (tanh (gamma_slot * a))
                            (n_slot * n_slot * kappa_core) of
              None \<Rightarrow> None
            | Some term2 \<Rightarrow>
                (let lhs = term1 + term2 + of_int j * pi;
                     rhs = kappa_core * (b - a)
                 in Some (rhs - lhs))))))"

definition solve_slot_slab ::
  "real \<Rightarrow> real \<Rightarrow> real \<Rightarrow> real \<Rightarrow> real \<Rightarrow> real \<Rightarrow> int \<Rightarrow> real \<times> real" where
  "solve_slot_slab n_clad n_core n_slot lambda w_slot w_core j =
     (let a = w_slot / 2;
          b = a + w_core;
          nmin = max n_clad n_slot;
          r_cosh = bisection (slot_cosh_equation n_clad n_core n_slot lambda a b j) nmin n_core
                     default_tol default_max_iter;
          r_sinh = bisection (slot_sinh_equation n_clad n_core n_slot lambda a b j) nmin n_core
                     default_tol default_max_iter
      in (if status (snd r_cosh) = CONVERGED then fst r_cosh else nmin,
          if status (snd r_sinh) = CONVERGED then fst r_sinh else nmin))"

text \<open>The hyperbolic cotangent of the specification's odd residual.\<close>

definition coth :: "real \<Rightarrow> real" where
  "coth x = cosh x / sinh x"

section \<open>Field reconstruction (libeim.h, \<^verbatim>\<open>mode_1D\<close>)\<close>

definition eps0 :: real where
  "eps0 = 8854188 / 10 ^ 18"

definition mu0 :: real where
  "mu0 = 4 * pi * (1 / 10 ^ 7)"

definition c_vac :: real where
  \<comment> \<open>the constant \<^verbatim>\<open>c\<close> of the source\<close>
  "c_vac = 1 / sqrt (eps0 * mu0)"

definition eta0 :: real where
  "eta0 = sqrt (mu0 / eps0)"

definition d_map2 :: "('a \<Rightarrow> 'b \<Rightarrow> 'c) \<Rightarrow> 'a option \<Rightarrow> 'b option \<Rightarrow> 'c option" where
  \<comment> \<open>a binary operation on values that may be NaN\<close>
  "d_map2 f x y = (case x of None \<Rightarrow> None
                    | Some u \<Rightarrow> (case y of None \<Rightarrow> None | Some v \<Rightarrow> Some (f u v)))"

text \<open>The quantities \<^verbatim>\<open>mode_1D\<close> computes before its loop over the sample positions.\<close>

definition mode_gamma1 :: "real \<Rightarrow> real \<Rightarrow> real \<Rightarrow> double" where
  "mode_gamma1 neff n1 lambda = map_option (\<lambda>s. 2 * pi * (1 / lambda) * s) (d_sqrt (neff ^ 2 - n1 ^ 2))"

definition mode_gamma2 :: "real \<Rightarrow> real \<Rightarrow> real \<Rightarrow> double" where
  "mode_gamma2 neff n2 lambda = map_option (\<lambda>s. 2 * pi * (1 / lambda) * s) (d_sqrt (n2 ^ 2 - neff ^ 2))"

definition mode_gamma3 :: "real \<Rightarrow> real \<Rightarrow> real \<Rightarrow> double" where
  "mode_gamma3 neff n3 lambda = map_option (\<lambda>s. 2 * pi * (1 / lambda) * s) (d_sqrt (neff ^ 2 - n3 ^ 2))"

definition mode_alpha :: "Mode \<Rightarrow> real \<Rightarrow> real \<Rightarrow> real \<Rightarrow> real \<Rightarrow> int \<Rightarrow> double" where
  "mode_alpha mode neff n1 n2 lambda j =
     d_map2 (\<lambda>gamma1 gamma2.
               - atan2 (gamma1 * (if mode = TE then 1 else n2 ^ 2))
                       (gamma2 * (if mode = TE then 1 else n1 ^ 2)) + of_int j * pi)
       (mode_gamma1 neff n1 lambda) (mode_gamma2 neff n2 lambda)"

definition mode_C2 :: real where
  "mode_C2 = 1"

definition mode_C1 :: "Mode \<Rightarrow> real \<Rightarrow> real \<Rightarrow> real \<Rightarrow> real \<Rightarrow> int \<Rightarrow> double" where
  "mode_C1 mode neff n1 n2 lambda j =
     map_option (\<lambda>alpha. mode_C2 * cos alpha * (if mode = TM then n2 ^ 2 / n1 ^ 2 else 1))
       (mode_alpha mode neff n1 n2 lambda j)"

definition mode_C3 :: "Mode \<Rightarrow> real \<Rightarrow> real \<Rightarrow> real \<Rightarrow> real \<Rightarrow> real \<Rightarrow> real \<Rightarrow> int \<Rightarrow> double" where
  "mode_C3 mode neff n1 n2 n3 lambda W j =
     d_map2 (\<lambda>gamma2 alpha. mode_C2 * cos (gamma2 * W + alpha) * (if mode = TM then n2 ^ 2 / n3 ^ 2 else 1))
       (mode_gamma2 neff n2 lambda) (mode_alpha mode neff n1 n2 lambda j)"

text \<open>
  The lateral companion \<^verbatim>\<open>Bl[i]\<close>, written the same way in the three branches of
  \<^verbatim>\<open>calculate_field\<close>, and the denominators of \<^verbatim>\<open>Bn[i]\<close>. Inside \<^verbatim>\<open>calculate_field\<close> the
  name \<^verbatim>\<open>j\<close> is the complex constant (1.0, 1.0).
\<close>

definition field_Bl :: "Mode \<Rightarrow> real \<Rightarrow> complex option \<Rightarrow> complex option" where
  "field_Bl mode n1 A =
     map_option (\<lambda>a. if mode = TE then a * of_real n1 / of_real eta0
                      else a * of_real eta0 / of_real n1) A"

definition field_j :: complex where
  "field_j = Complex 1 1"

definition denom_TE :: "real \<Rightarrow> complex" where
  "denom_TE lambda = field_j * 2 * of_real pi * of_real c_vac / of_real lambda * of_real mu0"

definition denom_TM :: "real \<Rightarrow> real \<Rightarrow> complex" where
  "denom_TM lambda n = field_j * 2 * of_real pi * of_real c_vac / of_real lambda * of_real eps0 * of_real (n ^ 2)"

text \<open>The three branches of \<^verbatim>\<open>calculate_field\<close>: the values written to (A[i], Bl[i], Bn[i]).\<close>

definition field_region1 ::
  "Mode \<Rightarrow> real \<Rightarrow> real \<Rightarrow> real \<Rightarrow> real \<Rightarrow> real \<Rightarrow> real \<Rightarrow> int \<Rightarrow> real
     \<Rightarrow> complex option \<times> complex option \<times> complex option" where
  "field_region1 mode neff n1 n2 n3 lambda W j x =
     (let gamma1 = mode_gamma1 neff n1 lambda;
          A = d_map2 (\<lambda>C1 g1. of_real (C1 * exp (g1 * x))) (mode_C1 mode neff n1 n2 lambda j) gamma1;
          Bl = field_Bl mode n1 A;
          Bn = d_map2 (\<lambda>g1 a. if mode = TE then (of_real (- g1) * a) / denom_TE lambda
                                else (of_real g1 * a) / denom_TM lambda n1) gamma1 A
      in (A, Bl, Bn))"

definition field_region2 ::
  "Mode \<Rightarrow> real \<Rightarrow> real \<Rightarrow> real \<Rightarrow> real \<Rightarrow> real \<Rightarrow> real \<Rightarrow> int \<Rightarrow> real
     \<Rightarrow> complex option \<times> complex option \<times> complex option" where
  "field_region2 mode neff n1 n2 n3 lambda W j x =
     (let gamma2 = mode_gamma2 neff n2 lambda;
          alpha = mode_alpha mode neff n1 n2 lambda j;
          A = d_map2 (\<lambda>g2 al. of_real (mode_C2 * cos (g2 * x + al))) gamma2 alpha;
          Bl = field_Bl mode n1 A;
          normal = d_map2 (\<lambda>g2 al. mode_C2 * g2 * sin (g2 * x + al)) gamma2 alpha;
          Bn = map_option (\<lambda>nm. if mode = TE then of_real nm / denom_TE lambda
                                   else of_real (- nm) / denom_TM lambda n2) normal
      in (A, Bl, Bn))"

definition field_region3 ::
  "Mode \<Rightarrow> real \<Rightarrow> real \<Rightarrow> real \<Rightarrow> real \<Rightarrow> real \<Rightarrow> real \<Rightarrow> int \<Rightarrow> real
     \<Rightarrow> complex option \<times> complex option \<times> complex option" where
  "field_region3 mode neff n1 n2 n3 lambda W j x =
     (let gamma3 = mode_gamma3 neff n3 lambda;
          A = d_map2 (\<lambda>C3 g3. of_real (C3 * exp (- g3 * (x - W))))
                (mode_C3 mode neff n1 n2 n3 lambda W j) gamma3;
          Bl = field_Bl mode n1 A;
          Bn = d_map2 (\<lambda>g3 a. if mode = TE then (of_real g3 * a) / denom_TE lambda
                                else (of_real g3 * a) / denom_TM lambda n3) gamma3 A
      in (A, Bl, Bn))"

text \<open>
  \<^verbatim>\<open>calculate_field\<close> at one sample position. \<open>None\<close> stands for the case in which none of
  the three conditions holds and the output entries are left as they were.
\<close>

definition calculate_field ::
  "Mode \<Rightarrow> real \<Rightarrow> real \<Rightarrow> real \<Rightarrow> real \<Rightarrow> real \<Rightarrow> real \<Rightarrow> int \<Rightarrow> real
     \<Rightarrow> (complex option \<times> complex option \<times> complex option) option" where
  "calculate_field mode neff n1 n2 n3 lambda W j x =
     (if x < 0 then Some (field_region1 mode neff n1 n2 n3 lambda W j x)
      else if x \<ge> 0 \<and> x \<le> W then Some (field_region2 mode neff n1 n2 n3 lambda W j x)
      else if x > W then Some (field_region3 mode neff n1 n2 n3 lambda W j x)
      else None)"

text \<open>\<^verbatim>\<open>mode_1D\<close>, the sequential loop: one entry for each sample position, in order.\<close>

definition mode_1D ::
  "Mode \<Rightarrow> real list \<Rightarrow> real \<Rightarrow> real \<Rightarrow> real \<Rightarrow> real \<Rightarrow> real \<Rightarrow> real \<Rightarrow> int
     \<Rightarrow> (complex option \<times> complex option \<times> complex option) option list" where
  "mode_1D mode xs neff n1 n2 n3 lambda W j =
     map (calculate_field mode neff n1 n2 n3 lambda W j) xs"

section \<open>Strip waveguide composition (eim.cc)\<close>

record Waveguide =
  wavelength :: real
  t_rib :: real
  t_slab :: real
  w_rib :: real
  w_slab :: real
  n_box :: real
  n_core :: real
  n_clad :: real
  mode_order :: nat
  mode :: Mode

type_synonym slab_solver = "real \<Rightarrow> real \<Rightarrow> real \<Rightarrow> real \<Rightarrow> real \<Rightarrow> int \<Rightarrow> real \<times> real"

text \<open>
  \<^verbatim>\<open>Waveguide::operator()\<close>, with the slab solver it calls as a parameter; the program's
  instance is \<open>solve_slab\<close>. The projections \<open>fst\<close> and \<open>snd\<close> are \<^verbatim>\<open>get<0>\<close> and
  \<^verbatim>\<open>get<1>\<close>.
\<close>

definition Waveguide_call_with :: "slab_solver \<Rightarrow> Waveguide \<Rightarrow> real" where
  "Waveguide_call_with solve wg =
     (let n1 = solve (n_box wg) (if t_slab wg = 0 then n_clad wg else n_core wg) (n_clad wg)
                 (wavelength wg) (t_slab wg) 0;
          n2 = solve (n_box wg) (n_core wg) (n_clad wg) (wavelength wg) (t_rib wg) 0;
          n3 = n1
      in case mode wg of
           TE \<Rightarrow> (let neff = solve (fst n1) (fst n2) (fst n3) (wavelength wg) (w_rib wg)
                                (int (mode_order wg))
                  in snd neff)
         | TM \<Rightarrow> (let neff = solve (snd n1) (snd n2) (snd n3) (wavelength wg) (w_rib wg)
                                (int (mode_order wg))
                  in fst neff))"

definition Waveguide_call :: "Waveguide \<Rightarrow> real" where
  "Waveguide_call wg = Waveguide_call_with solve_slab wg"

text \<open>
  The composition as the specification words it: for device-TE the TM components of the
  vertical solves feed the lateral solve and the opposite component of its result is
  returned; for device-TM the selection is mirrored.
\<close>

definition spec_Waveguide_call_with :: "slab_solver \<Rightarrow> Waveguide \<Rightarrow> real" where
  "spec_Waveguide_call_with solve wg =
     (let n1 = solve (n_box wg) (if t_slab wg = 0 then n_clad wg else n_core wg) (n_clad wg)
                 (wavelength wg) (t_slab wg) 0;
          n2 = solve (n_box wg) (n_core wg) (n_clad wg) (wavelength wg) (t_rib wg) 0;
          n3 = n1
      in case mode wg of
           TE \<Rightarrow> fst (solve (snd n1) (snd n2) (snd n3) (wavelength wg) (w_rib wg)
                         (int (mode_order wg)))
         | TM \<Rightarrow> snd (solve (fst n1) (fst n2) (fst n3) (wavelength wg) (w_rib wg)
                         (int (mode_order wg))))"

text \<open>
  A slab solver whose two components are told apart at sight, and the waveguide that
  \<^verbatim>\<open>main\<close> builds by default.
\<close>

definition marking_solver :: slab_solver where
  "marking_solver n1 n2 n3 lambda W j = (n2 + 1, 2 * n2)"

definition default_wg :: Waveguide where
  "default_wg = \<lparr>wavelength = 155 / 100, t_rib = 22 / 100, t_slab = 0, w_rib = 1 / 2, w_slab = 0,
                 n_box = 144 / 100, n_core = 347 / 100, n_clad = 144 / 100, mode_order = 0, mode = TE\<rparr>"

section \<open>A family of symmetric slabs\<close>

text \<open>
  Symmetric slabs with outer index 1, core index \<open>t\<close> and wavelength 1. \<open>tuned_W t\<close> is the
  thickness at which the TE residual of order 5 vanishes at the first midpoint (1 + t)/2 of
  the bracket, and \<open>resid6 t\<close> is the TE residual of order 6 at the second midpoint
  (3 + t)/4 for that thickness.
\<close>

definition tuned_W :: "real \<Rightarrow> real" where
  "tuned_W t = (6 * pi - 2 * arctan (sqrt (t\<^sup>2 - ((1 + t) / 2)\<^sup>2) / sqrt (((1 + t) / 2)\<^sup>2 - 1)))
                 / (2 * pi * sqrt (t\<^sup>2 - ((1 + t) / 2)\<^sup>2))"

definition resid6 :: "real \<Rightarrow> real" where
  "resid6 t = 7 * pi - 2 * arctan (sqrt (t\<^sup>2 - ((3 + t) / 4)\<^sup>2) / sqrt (((3 + t) / 4)\<^sup>2 - 1))
                - 2 * pi * sqrt (t\<^sup>2 - ((3 + t) / 4)\<^sup>2) * tuned_W t"

section \<open>Properties of the root finder\<close>

text \<open>
  C2. Bisection on f(x) = 2x - 5 over the bracket [-6, 6] with the default tolerance and
  iteration budget is claimed to return a value within the tolerance of 2.5 with status
  CONVERGED. The code returns 0 with status DIVERGED after no iteration: the first midpoint
  is 0, and the loop guard \<^verbatim>\<open>*pmid > tol\<close> is false there.
\<close>

theorem bisection_test_returns_zero:
  "bisection test_f (-6) 6 default_tol default_max_iter
     = (0, \<lparr>status = DIVERGED, iterations = 0, residual = Some 5\<rparr>)"
  by (simp add: bisection_def bisection_finish_def bisection_loop.simps [of _ _ _ _ _ _ _ 0]
      test_f_def default_tol_def default_max_iter_def d_gt_def d_mul_def d_fabs_def)

text \<open>
  C3. After a loop that ends without the early return, the status is claimed to be forced to
  DIVERGED exactly when the final midpoint is within the tolerance of one of the bracket
  endpoints that were passed in. The code compares with \<^verbatim>\<open>a\<close> and \<^verbatim>\<open>b\<close> after the loop
  has overwritten them through \<^verbatim>\<open>pa\<close> and \<^verbatim>\<open>pb\<close>, that is with the narrowed bracket.
  For f(x) = 4(x - 3) on [0, 8] with tolerance 1.5 and two iterations the loop ends at the
  bracket [2, 4] with no early return; the final midpoint 3 is 3 and 5 away from the
  endpoints passed in and the half-width is 1, so the claimed status is CONVERGED, and the
  code reports DIVERGED.
\<close>

theorem bisection_final_check_uses_narrowed_bracket:
  "bisection_loop linear_f (3/2) 2 0 8 (linear_f 0) (linear_f 8) 4 (linear_f 4) 0 = Inr (2, 4, 2)
   \<and> bisection linear_f 0 8 (3/2) 2 = (3, \<lparr>status = DIVERGED, iterations = 2, residual = Some 0\<rparr>)
   \<and> spec_final_status (3/2) 0 8 2 4 = CONVERGED"
proof -
  have loop: "bisection_loop linear_f (3/2) 2 0 8 (linear_f 0) (linear_f 8) 4 (linear_f 4) 0
                = Inr (2, 4, 2)"
    by (simp add: bisection_loop.simps [of _ _ _ _ _ _ _ 4] bisection_loop.simps [of _ _ _ _ _ _ _ 2]
        linear_f_def Let_def d_gt_def d_lt_def d_mul_def d_fabs_def)
  have "bisection linear_f 0 8 (3/2) 2
          = (3, \<lparr>status = DIVERGED, iterations = 2, residual = Some 0\<rparr>)"
    using loop
    by (simp add: bisection_def bisection_finish_def linear_f_def d_gt_def d_mul_def d_fabs_def)
  moreover have "spec_final_status (3/2) 0 8 2 4 = CONVERGED"
    by (simp add: spec_final_status_def)
  ultimately show ?thesis
    using loop by simp
qed

section \<open>Properties of the characteristic equations\<close>

lemma int32_id: "- (2 ^ 31) \<le> x \<Longrightarrow> x < 2 ^ 31 \<Longrightarrow> int32 x = x"
  by (simp add: int32_def)

lemma sqrt_9: "sqrt 9 = 3"
  using real_sqrt_abs [of 3] by simp

lemma sqrt_16: "sqrt 16 = 4"
  using real_sqrt_abs [of 4] by simp

lemma band_squares:
  fixes lo x hi :: real
  assumes "0 \<le> lo" "lo < x" "x < hi"
  shows "lo * lo \<le> x * x" "x * x \<le> hi * hi" "lo\<^sup>2 \<le> x\<^sup>2" "x\<^sup>2 \<le> hi\<^sup>2"
  using assms by (simp_all add: mult_mono power_mono)

lemma coth_tanh: "coth x = 1 / tanh x"
  by (simp add: coth_def tanh_def)

text \<open>
  C6. For non-negative indices \<open>n1\<close> and \<open>n3\<close>, a positive wavelength, a mode order \<open>j\<close>
  for which \<^verbatim>\<open>j+1\<close> is an \<^verbatim>\<open>int\<close> (\<open>j\<close> from -2^31 up to 2^31 - 2) and an effective
  index strictly between max(n1, n3) and n2, the TE evaluation of the slab characteristic
  equation returns (-atan2(\<gamma>2, \<gamma>1) - atan2(\<gamma>2, \<gamma>3) + (j + 1)\<pi>) - \<gamma>2 W, with
  k0 = 2\<pi>/\<lambda>, \<gamma>1 = k0 sqrt(neff^2 - n1^2), \<gamma>2 = k0 sqrt(n2^2 - neff^2) and
  \<gamma>3 = k0 sqrt(neff^2 - n3^2).
\<close>

theorem slab_equation_TE_formula:
  assumes "0 < lambda" "0 \<le> n1" "0 \<le> n3" "max n1 n3 < neff" "neff < n2"
    and "- (2 ^ 31) \<le> j" "j < 2 ^ 31 - 1"
  shows "slab_equation TE n1 n2 n3 lambda W j neff =
     (let k0 = 2 * pi / lambda;
          gamma1 = k0 * sqrt (neff\<^sup>2 - n1\<^sup>2);
          gamma2 = k0 * sqrt (n2\<^sup>2 - neff\<^sup>2);
          gamma3 = k0 * sqrt (neff\<^sup>2 - n3\<^sup>2)
      in Some ((- atan2 gamma2 gamma1 - atan2 gamma2 gamma3 + (of_int j + 1) * pi) - gamma2 * W))"
proof -
  have "n1\<^sup>2 \<le> neff\<^sup>2" "n3\<^sup>2 \<le> neff\<^sup>2" "neff\<^sup>2 \<le> n2\<^sup>2"
    using assms(1-5) band_squares [of n1 neff n2] band_squares [of n3 neff n2] by auto
  moreover have "int32 (j + 1) = j + 1"
    using assms(6,7) by (intro int32_id) simp_all
  ultimately show ?thesis
    by (simp add: slab_equation_def d_sqrt_def Let_def)
qed

theorem slab_equation_TE_formula_witness:
  "(0::real) < 1 \<and> (0::real) \<le> 3 \<and> max 3 3 < (4::real) \<and> (4::real) < 5
   \<and> - (2 ^ 31) \<le> (0::int) \<and> (0::int) < 2 ^ 31 - 1
   \<and> slab_equation TE 3 5 3 1 1 0 4 =
       Some ((- atan2 (6 * pi) (2 * pi * sqrt 7) - atan2 (6 * pi) (2 * pi * sqrt 7) + pi) - 6 * pi)"
  using slab_equation_TE_formula [where lambda = 1 and ?n1.0 = 3 and ?n3.0 = 3 and neff = 4
      and ?n2.0 = 5 and W = 1 and j = 0]
  by (simp add: Let_def sqrt_9)

text \<open>
  C7. For non-negative indices \<open>n_clad\<close> and \<open>n_slot\<close> and an effective index strictly
  between max(n_clad, n_slot) and n_core, the even slot residual is
  \<kappa>_core (b - a) - [atan2(n_core^2 \<gamma>_clad, n_clad^2 \<kappa>_core)
  + atan2(n_core^2 \<gamma>_slot tanh(\<gamma>_slot a), n_slot^2 \<kappa>_core) + j \<pi>], and the odd residual is
  the same expression with coth in place of tanh, wherever coth is defined (\<open>a\<close> is not zero).
\<close>

theorem slot_equation_formula:
  assumes "lambda \<noteq> 0" "0 \<le> nclad" "0 \<le> nslot" "max nclad nslot < neff" "neff < ncore"
  shows "slot_cosh_equation nclad ncore nslot lambda a b j neff =
     (let k0 = 2 * pi / lambda;
          gamma_slot = k0 * sqrt (neff\<^sup>2 - nslot\<^sup>2);
          kappa_core = k0 * sqrt (ncore\<^sup>2 - neff\<^sup>2);
          gamma_clad = k0 * sqrt (neff\<^sup>2 - nclad\<^sup>2)
      in Some (kappa_core * (b - a)
               - (atan2 (ncore\<^sup>2 * gamma_clad) (nclad\<^sup>2 * kappa_core)
                  + atan2 (ncore\<^sup>2 * gamma_slot * tanh (gamma_slot * a)) (nslot\<^sup>2 * kappa_core)
                  + of_int j * pi)))
   \<and> (a \<noteq> 0 \<longrightarrow>
      slot_sinh_equation nclad ncore nslot lambda a b j neff =
     (let k0 = 2 * pi / lambda;
          gamma_slot = k0 * sqrt (neff\<^sup>2 - nslot\<^sup>2);
          kappa_core = k0 * sqrt (ncore\<^sup>2 - neff\<^sup>2);
          gamma_clad = k0 * sqrt (neff\<^sup>2 - nclad\<^sup>2)
      in Some (kappa_core * (b - a)
               - (atan2 (ncore\<^sup>2 * gamma_clad) (nclad\<^sup>2 * kappa_core)
                  + atan2 (ncore\<^sup>2 * gamma_slot * coth (gamma_slot * a)) (nslot\<^sup>2 * kappa_core)
                  + of_int j * pi))))"
proof -
  have sq: "nslot * nslot \<le> neff * neff" "neff * neff \<le> ncore * ncore"
    "nclad * nclad \<le> neff * neff"
    using assms band_squares [of nslot neff ncore] band_squares [of nclad neff ncore]
    by auto
  have "nslot * nslot < neff * neff"
    using assms by (intro mult_strict_mono') auto
  then have pos: "sqrt (neff * neff - nslot * nslot) \<noteq> 0"
    by simp
  show ?thesis
    using sq pos assms(1)
    by (simp add: slot_cosh_equation_def slot_sinh_equation_def sinh_term2_def d_sqrt_def
        Let_def power2_eq_square coth_tanh)
qed

theorem slot_equation_formula_witness:
  "(1::real) \<noteq> 0 \<and> (0::real) \<le> 3 \<and> max 3 3 < (4::real) \<and> (4::real) < 5
   \<and> slot_cosh_equation 3 5 3 1 1 2 0 4 =
       Some (6 * pi * (2 - 1)
             - (atan2 (25 * (2 * pi * sqrt 7)) (9 * (6 * pi))
                + atan2 (25 * (2 * pi * sqrt 7) * tanh (2 * pi * sqrt 7 * 1)) (9 * (6 * pi)) + 0 * pi))
   \<and> slot_sinh_equation 3 5 3 1 1 2 0 4 =
       Some (6 * pi * (2 - 1)
             - (atan2 (25 * (2 * pi * sqrt 7)) (9 * (6 * pi))
                + atan2 (25 * (2 * pi * sqrt 7) * coth (2 * pi * sqrt 7 * 1)) (9 * (6 * pi)) + 0 * pi))"
  using slot_equation_formula [where lambda = 1 and nclad = 3 and nslot = 3 and neff = 4
      and ncore = 5 and a = 1 and b = 2 and j = 0]
  by (simp add: Let_def sqrt_9)

section \<open>Properties of the solvers\<close>

lemma bisection_invalid_range:
  assumes "d_gt (d_mul (f a) (f b)) 0"
  shows "fst (bisection f a b tol max_iter) = a"
    and "status (snd (bisection f a b tol max_iter)) = INVALID_RANGE"
  using assms by (simp_all add: bisection_def Let_def)

text \<open>
  C4. Whenever the residual has no sign change across the bracket (f(a) f(b) > 0 at the
  bracket endpoints), \<open>solve_slab\<close> returns exactly min(n1, n3) for that polarization and
  \<open>solve_slot_slab\<close> returns exactly max(n_clad, n_slot) for that symmetry: a number, and the
  lower endpoint of the bracket.
\<close>

theorem fallback_on_invalid_range:
  assumes "lambda \<noteq> 0"
  shows "(d_gt (d_mul (slab_equation TE n1 n2 n3 lambda W j (min n1 n3))
                (slab_equation TE n1 n2 n3 lambda W j n2)) 0
      \<longrightarrow> fst (solve_slab n1 n2 n3 lambda W j) = min n1 n3)
   \<and> (d_gt (d_mul (slab_equation TM n1 n2 n3 lambda W j (min n1 n3))
                  (slab_equation TM n1 n2 n3 lambda W j n2)) 0
      \<longrightarrow> snd (solve_slab n1 n2 n3 lambda W j) = min n1 n3)
   \<and> (d_gt (d_mul (slot_cosh_equation nclad ncore nslot lambda (w_slot / 2) (w_slot / 2 + w_core) j
                    (max nclad nslot))
                  (slot_cosh_equation nclad ncore nslot lambda (w_slot / 2) (w_slot / 2 + w_core) j
                    ncore)) 0
      \<longrightarrow> fst (solve_slot_slab nclad ncore nslot lambda w_slot w_core j) = max nclad nslot)
   \<and> (d_gt (d_mul (slot_sinh_equation nclad ncore nslot lambda (w_slot / 2) (w_slot / 2 + w_core) j
                    (max nclad nslot))
                  (slot_sinh_equation nclad ncore nslot lambda (w_slot / 2) (w_slot / 2 + w_core) j
                    ncore)) 0
      \<longrightarrow> snd (solve_slot_slab nclad ncore nslot lambda w_slot w_core j) = max nclad nslot)"
  by (simp add: solve_slab_def solve_slot_slab_def Let_def bisection_invalid_range)

lemma slab_residual_low:
  "slab_equation TE 3 5 3 1 (1/10) 1 3 = Some (pi / 5)"
  "slab_equation TM 3 5 3 1 (1/10) 1 3 = Some (pi / 5)"
  by (simp_all add: slab_equation_def d_sqrt_def atan2_def sqrt_16 int32_def)

lemma slab_residual_high:
  "slab_equation TE 3 5 3 1 (1/10) 1 5 = Some (2 * pi)"
  "slab_equation TM 3 5 3 1 (1/10) 1 5 = Some (2 * pi)"
  by (simp_all add: slab_equation_def d_sqrt_def atan2_def sqrt_16 int32_def)

lemma slot_residual_low:
  "d_lt (slot_cosh_equation 3 5 1 1 (1/2) (9/16) 1 3) 0"
  "d_lt (slot_sinh_equation 3 5 1 1 (1/2) (9/16) 1 3) 0"
proof -
  have b: "8 * pi / 16 - (arctan x + pi) < 0" for x
    using arctan_lbound [of x] by simp
  show "d_lt (slot_cosh_equation 3 5 1 1 (1/2) (9/16) 1 3) 0"
    using b by (simp add: slot_cosh_equation_def d_sqrt_def atan2_def sqrt_16 d_lt_def)
  show "d_lt (slot_sinh_equation 3 5 1 1 (1/2) (9/16) 1 3) 0"
    using b by (simp add: slot_sinh_equation_def sinh_term2_def d_sqrt_def atan2_def sqrt_16 d_lt_def)
qed

lemma slot_residual_high:
  "slot_cosh_equation 3 5 1 1 (1/2) (9/16) 1 5 = Some (- (2 * pi))"
  "slot_sinh_equation 3 5 1 1 (1/2) (9/16) 1 5 = Some (- (2 * pi))"
  by (simp_all add: slot_cosh_equation_def slot_sinh_equation_def sinh_term2_def d_sqrt_def
      atan2_def sqrt_16 zero_less_mult_iff)

lemma d_mul_neg_neg: "d_lt x 0 \<Longrightarrow> d_gt (d_mul x (Some (- (2 * pi)))) 0"
  by (cases x) (simp_all add: d_lt_def d_gt_def d_mul_def mult_neg_pos)

theorem fallback_on_invalid_range_witness:
  "(1::real) \<noteq> 0
   \<and> d_gt (d_mul (slab_equation TE 3 5 3 1 (1/10) 1 (min 3 3)) (slab_equation TE 3 5 3 1 (1/10) 1 5)) 0
   \<and> fst (solve_slab 3 5 3 1 (1/10) 1) = min 3 3
   \<and> d_gt (d_mul (slab_equation TM 3 5 3 1 (1/10) 1 (min 3 3)) (slab_equation TM 3 5 3 1 (1/10) 1 5)) 0
   \<and> snd (solve_slab 3 5 3 1 (1/10) 1) = min 3 3
   \<and> d_gt (d_mul (slot_cosh_equation 3 5 1 1 (1/2) (9/16) 1 (max 3 1))
                 (slot_cosh_equation 3 5 1 1 (1/2) (9/16) 1 5)) 0
   \<and> fst (solve_slot_slab 3 5 1 1 1 (1/16) 1) = max 3 1
   \<and> d_gt (d_mul (slot_sinh_equation 3 5 1 1 (1/2) (9/16) 1 (max 3 1))
                 (slot_sinh_equation 3 5 1 1 (1/2) (9/16) 1 5)) 0
   \<and> snd (solve_slot_slab 3 5 1 1 1 (1/16) 1) = max 3 1"
proof -
  have slab: "d_gt (d_mul (slab_equation TE 3 5 3 1 (1/10) 1 3) (slab_equation TE 3 5 3 1 (1/10) 1 5)) 0"
    "d_gt (d_mul (slab_equation TM 3 5 3 1 (1/10) 1 3) (slab_equation TM 3 5 3 1 (1/10) 1 5)) 0"
    by (simp_all add: slab_residual_low slab_residual_high d_gt_def d_mul_def)
  have slot: "d_gt (d_mul (slot_cosh_equation 3 5 1 1 (1/2) (9/16) 1 3)
                          (slot_cosh_equation 3 5 1 1 (1/2) (9/16) 1 5)) 0"
    "d_gt (d_mul (slot_sinh_equation 3 5 1 1 (1/2) (9/16) 1 3)
                 (slot_sinh_equation 3 5 1 1 (1/2) (9/16) 1 5)) 0"
    using slot_residual_low [THEN d_mul_neg_neg] by (simp_all add: slot_residual_high)
  show ?thesis
    using fallback_on_invalid_range [where ?n1.0 = 3 and ?n2.0 = 5 and ?n3.0 = 3 and lambda = 1
        and W = "1/10" and j = 1 and nclad = 3 and ncore = 5 and nslot = 1
        and w_slot = 1 and w_core = "1/16"] slab slot
    by simp
qed

text \<open>A result that \<open>bisection\<close> reports as CONVERGED lies strictly inside the bracket.\<close>

lemma bisection_loop_Inl:
  "a < b \<Longrightarrow> bisection_loop f tol mi a b fa fb mid fmid it = Inl r
     \<Longrightarrow> a < fst r \<and> fst r < b"
proof (induction f tol mi a b fa fb mid fmid it rule: bisection_loop.induct)
  case (1 f tol mi a b fa fb mid fmid it)
  define m where "m = (a + b) / 2"
  have m: "a < m" "m < b"
    using "1.prems"(1) by (simp_all add: m_def)
  have run: "mid > tol \<and> d_gt (d_fabs fmid) tol \<and> it < mi"
    using "1.prems"(2) by (subst (asm) bisection_loop.simps) (simp split: if_splits)
  show ?case
  proof (cases "d_lt (d_fabs (f m)) tol")
    case True
    then have "r = (m, \<lparr>status = CONVERGED, iterations = it, residual = d_fabs (f m)\<rparr>)"
      using "1.prems"(2) run by (subst (asm) bisection_loop.simps) (simp add: m_def Let_def)
    then show ?thesis
      using m by simp
  next
    case conv: False
    show ?thesis
    proof (cases "d_lt (d_mul fa (f m)) 0")
      case True
      then have "bisection_loop f tol mi a m fa (f m) m (f m) (it + 1) = Inl r"
        using "1.prems"(2) run conv by (subst (asm) bisection_loop.simps) (simp add: m_def Let_def)
      from "1.IH"(1) [OF run m_def refl conv True m(1) this] show ?thesis
        using m by simp
    next
      case False
      then have "bisection_loop f tol mi m b (f m) fb m (f m) (it + 1) = Inl r"
        using "1.prems"(2) run conv by (subst (asm) bisection_loop.simps) (simp add: m_def Let_def)
      from "1.IH"(2) [OF run m_def refl conv False m(2) this] show ?thesis
        using m by simp
    qed
  qed
qed

lemma bisection_loop_Inr:
  "a < b \<Longrightarrow> bisection_loop f tol mi a b fa fb mid fmid it = Inr (a', b', it')
     \<Longrightarrow> a \<le> a' \<and> a' < b' \<and> b' \<le> b"
proof (induction f tol mi a b fa fb mid fmid it rule: bisection_loop.induct)
  case (1 f tol mi a b fa fb mid fmid it)
  define m where "m = (a + b) / 2"
  have m: "a < m" "m < b"
    using "1.prems"(1) by (simp_all add: m_def)
  show ?case
  proof (cases "mid > tol \<and> d_gt (d_fabs fmid) tol \<and> it < mi")
    case False
    then show ?thesis
      using "1.prems" by (subst (asm) bisection_loop.simps) auto
  next
    case run: True
    have conv: "\<not> d_lt (d_fabs (f m)) tol"
      using "1.prems"(2) run
      by (subst (asm) bisection_loop.simps) (auto simp: m_def Let_def split: if_splits)
    show ?thesis
    proof (cases "d_lt (d_mul fa (f m)) 0")
      case True
      then have "bisection_loop f tol mi a m fa (f m) m (f m) (it + 1) = Inr (a', b', it')"
        using "1.prems"(2) run conv by (subst (asm) bisection_loop.simps) (simp add: m_def Let_def)
      from "1.IH"(1) [OF run m_def refl conv True m(1) this] show ?thesis
        using m by simp
    next
      case False
      then have "bisection_loop f tol mi m b (f m) fb m (f m) (it + 1) = Inr (a', b', it')"
        using "1.prems"(2) run conv by (subst (asm) bisection_loop.simps) (simp add: m_def Let_def)
      from "1.IH"(2) [OF run m_def refl conv False m(2) this] show ?thesis
        using m by simp
    qed
  qed
qed

lemma bisection_converged_range:
  assumes "a < b" "status (snd (bisection f a b tol mi)) = CONVERGED"
  shows "a < fst (bisection f a b tol mi) \<and> fst (bisection f a b tol mi) < b"
proof (cases "d_gt (d_mul (f a) (f b)) 0")
  case True
  then show ?thesis
    using assms(2) by (simp add: bisection_def Let_def)
next
  case False
  show ?thesis
  proof (cases "bisection_loop f tol mi a b (f a) (f b) ((a + b) / 2) (f ((a + b) / 2)) 0")
    case (Inl r)
    then have "bisection f a b tol mi = r"
      using False by (simp add: bisection_def Let_def)
    then show ?thesis
      using bisection_loop_Inl [OF assms(1) Inl] by simp
  next
    case (Inr t)
    obtain a' b' it' where t: "t = (a', b', it')"
      by (cases t) auto
    have "a \<le> a' \<and> a' < b' \<and> b' \<le> b"
      using bisection_loop_Inr [OF assms(1)] Inr t by simp
    moreover have "fst (bisection f a b tol mi) = (a' + b') / 2"
      using False Inr t by (simp add: bisection_def bisection_finish_def Let_def)
    ultimately show ?thesis
      by simp
  qed
qed

lemma atan2_nonneg: "0 \<le> y \<Longrightarrow> 0 < x \<Longrightarrow> 0 \<le> atan2 y x"
  by (simp add: atan2_def)

lemma slab_equation_upper:
  assumes "0 < lambda" "n1\<^sup>2 < x\<^sup>2" "n3\<^sup>2 < x\<^sup>2" "x\<^sup>2 \<le> n2\<^sup>2" "n2 \<noteq> 0"
  shows "\<exists>v. slab_equation md n1 n2 n3 lambda W j x = Some v
           \<and> v \<le> of_int (int32 (j + 1)) * pi - 2 * pi * (1 / lambda) * sqrt (n2\<^sup>2 - x\<^sup>2) * W"
proof -
  define k0 where "k0 = 2 * pi * (1 / lambda)"
  define g1 where "g1 = k0 * sqrt (x\<^sup>2 - n1\<^sup>2)"
  define g2 where "g2 = k0 * sqrt (n2\<^sup>2 - x\<^sup>2)"
  define g3 where "g3 = k0 * sqrt (x\<^sup>2 - n3\<^sup>2)"
  have k0: "0 < k0"
    using assms(1) by (simp add: k0_def)
  have g: "0 < g1" "0 \<le> g2" "0 < g3"
    using k0 assms(2-4) by (simp_all add: g1_def g2_def g3_def)
  have n: "0 < n2\<^sup>2" "0 \<le> n1\<^sup>2" "0 \<le> n3\<^sup>2"
    using assms(5) by simp_all
  have TE: "0 \<le> atan2 g2 g1" "0 \<le> atan2 g2 g3"
    using g by (simp_all add: atan2_nonneg)
  have TM: "0 \<le> atan2 (n1\<^sup>2 * g2) (n2\<^sup>2 * g1)" "0 \<le> atan2 (n3\<^sup>2 * g2) (n2\<^sup>2 * g3)"
    using g n by (simp_all add: atan2_nonneg)
  have "slab_equation md n1 n2 n3 lambda W j x =
          Some ((case md of
                   TE \<Rightarrow> - atan2 g2 g1 - atan2 g2 g3 + of_int (int32 (j + 1)) * pi
                 | TM \<Rightarrow> - atan2 (n1\<^sup>2 * g2) (n2\<^sup>2 * g1) - atan2 (n3\<^sup>2 * g2) (n2\<^sup>2 * g3)
                         + of_int (int32 (j + 1)) * pi) - g2 * W)"
    using assms(2-4)
    by (cases md) (simp_all add: slab_equation_def d_sqrt_def Let_def k0_def g1_def g2_def g3_def)
  moreover have "(case md of
                   TE \<Rightarrow> - atan2 g2 g1 - atan2 g2 g3 + of_int (int32 (j + 1)) * pi
                 | TM \<Rightarrow> - atan2 (n1\<^sup>2 * g2) (n2\<^sup>2 * g1) - atan2 (n3\<^sup>2 * g2) (n2\<^sup>2 * g3)
                         + of_int (int32 (j + 1)) * pi) - g2 * W
                \<le> of_int (int32 (j + 1)) * pi - g2 * W"
    using TE TM by (cases md) simp_all
  ultimately show ?thesis
    by (simp add: g2_def k0_def)
qed

lemma guided_band_residual_negative:
  "d_lt (slab_equation md (29/10) 3 1 (31/20) 10 0 (59/20)) 0"
proof -
  define s where "s = sqrt (3\<^sup>2 - (59/20)\<^sup>2)"
  define c where "c = 2 * pi * (1 / (31/20)) * 10"
  obtain v where v: "slab_equation md (29/10) 3 1 (31/20) 10 0 (59/20) = Some v"
    "v \<le> of_int (int32 (0 + 1)) * pi - 2 * pi * (1 / (31/20)) * sqrt (3\<^sup>2 - (59/20)\<^sup>2) * 10"
    using slab_equation_upper [of "31/20" "29/10" "59/20" 1 3 md 10 0]
    by (auto simp: power2_eq_square)
  have le: "v \<le> pi - c * s"
    using v(2) by (simp add: int32_def s_def c_def)
  have c: "0 < c" "2 * pi < c"
    by (simp_all add: c_def)
  have "1 / 2 < s"
    unfolding s_def by (rule real_less_rsqrt) (simp add: power2_eq_square)
  then have "c * (1 / 2) < c * s"
    using c(1) by (rule mult_strict_left_mono)
  then have "v < 0"
    using le c(2) by linarith
  then show ?thesis
    by (simp add: v(1) d_lt_def)
qed

lemma guided_band_residual_positive:
  "slab_equation md (29/10) 3 1 (31/20) 10 0 3 = Some pi"
  by (cases md) (simp_all add: slab_equation_def d_sqrt_def atan2_def int32_def power2_eq_square)

text \<open>
  C5. The claim: for a positive wavelength, a positive thickness and a core index above both
  outer indices, each component of \<open>solve_slab\<close> at order 0 lies strictly between
  max(n_box, n_clad) and n_core. For a core of index 3 and thickness 10 on a box of index 2.9
  under a cladding of index 1, at wavelength 1.55, both residuals change sign between 2.95
  and 3, so a mode of order 0 is guided with its index in that range; \<open>solve_slab\<close>
  returns (1, 1). The bracket starts at min(n_box, n_clad) = 1, the residual is NaN at 1 and
  at the first midpoint 2, the loop of the root finder is skipped and the fallback is taken.
\<close>

theorem solve_slab_misses_guided_mode:
  "(0::real) < 31/20 \<and> (0::real) < 10 \<and> max (29/10) 1 < (3::real)
   \<and> solve_slab (29/10) 3 1 (31/20) 10 0 = (1, 1)
   \<and> max (29/10) 1 < (59/20::real) \<and> (59/20::real) < 3
   \<and> d_lt (slab_equation TE (29/10) 3 1 (31/20) 10 0 (59/20)) 0
   \<and> d_gt (slab_equation TE (29/10) 3 1 (31/20) 10 0 3) 0
   \<and> d_lt (slab_equation TM (29/10) 3 1 (31/20) 10 0 (59/20)) 0
   \<and> d_gt (slab_equation TM (29/10) 3 1 (31/20) 10 0 3) 0"
proof -
  have nan: "slab_equation md (29/10) 3 1 (31/20) 10 0 1 = None"
    "slab_equation md (29/10) 3 1 (31/20) 10 0 2 = None" for md
    by (simp_all add: slab_equation_def d_sqrt_def power2_eq_square)
  have "bisection (slab_equation md (29/10) 3 1 (31/20) 10 0) 1 3 default_tol default_max_iter
          = (2, \<lparr>status = DIVERGED, iterations = 0, residual = None\<rparr>)" for md
    by (simp add: bisection_def bisection_finish_def bisection_loop.simps [of _ _ _ _ _ _ _ 2]
        nan default_tol_def default_max_iter_def d_gt_def d_mul_def d_fabs_def)
  then have "solve_slab (29/10) 3 1 (31/20) 10 0 = (1, 1)"
    by (simp add: solve_slab_def)
  then show ?thesis
    using guided_band_residual_negative
    by (simp add: guided_band_residual_positive d_gt_def)
qed

section \<open>Properties of the strip composition\<close>

text \<open>
  C1. The claim: for a device-TE mode the lateral solve is fed the TM components
  (\<^verbatim>\<open>get<1>\<close>) of the vertical solves and the opposite component of its result is returned, and
  for device-TM the selection is mirrored. The code feeds the TE components (\<^verbatim>\<open>get<0>\<close>)
  for device-TE and returns \<^verbatim>\<open>get<1>\<close>. With a slab solver that returns (n2 + 1, 2 n2) the
  two compositions give different values on the default waveguide: 8.94 by the code and 7.94
  by the claim for TE, and the reverse for TM.
\<close>

theorem strip_composition_counterexample:
  "Waveguide_call_with marking_solver default_wg = 894 / 100
   \<and> spec_Waveguide_call_with marking_solver default_wg = 794 / 100
   \<and> Waveguide_call_with marking_solver (default_wg\<lparr>mode := TM\<rparr>) = 794 / 100
   \<and> spec_Waveguide_call_with marking_solver (default_wg\<lparr>mode := TM\<rparr>) = 894 / 100
   \<and> Waveguide_call_with marking_solver default_wg \<noteq> spec_Waveguide_call_with marking_solver default_wg"
  by (simp add: Waveguide_call_with_def spec_Waveguide_call_with_def marking_solver_def
      default_wg_def)

text \<open>
  C1, as amended: for a device-TE mode the three indices fed to the lateral \<open>solve_slab\<close>
  call are the TE components (\<^verbatim>\<open>get<0>\<close>) of the vertical solves (the slab-region solve is
  used for both outer regions) and the value returned is the TM component (\<^verbatim>\<open>get<1>\<close>) of
  the lateral solve; for a device-TM mode the TM components are fed and the TE component is
  returned.
\<close>

theorem strip_composition:
  "Waveguide_call (wg\<lparr>mode := TE\<rparr>) =
     snd (solve_slab
            (fst (solve_slab (n_box wg) (if t_slab wg = 0 then n_clad wg else n_core wg) (n_clad wg)
                    (wavelength wg) (t_slab wg) 0))
            (fst (solve_slab (n_box wg) (n_core wg) (n_clad wg) (wavelength wg) (t_rib wg) 0))
            (fst (solve_slab (n_box wg) (if t_slab wg = 0 then n_clad wg else n_core wg) (n_clad wg)
                    (wavelength wg) (t_slab wg) 0))
            (wavelength wg) (w_rib wg) (int (mode_order wg)))
   \<and> Waveguide_call (wg\<lparr>mode := TM\<rparr>) =
     fst (solve_slab
            (snd (solve_slab (n_box wg) (if t_slab wg = 0 then n_clad wg else n_core wg) (n_clad wg)
                    (wavelength wg) (t_slab wg) 0))
            (snd (solve_slab (n_box wg) (n_core wg) (n_clad wg) (wavelength wg) (t_rib wg) 0))
            (snd (solve_slab (n_box wg) (if t_slab wg = 0 then n_clad wg else n_core wg) (n_clad wg)
                    (wavelength wg) (t_slab wg) 0))
            (wavelength wg) (w_rib wg) (int (mode_order wg)))"
  by (simp add: Waveguide_call_def Waveguide_call_with_def Let_def)

section \<open>Properties of the field reconstruction\<close>

text \<open>For TE the factor on C1 and C3 is 1 and the amplitude is continuous at both boundaries.\<close>

lemma TE_amplitude_continuous_at_zero:
  "fst (field_region1 TE neff n1 n2 n3 lambda W j 0) = fst (field_region2 TE neff n1 n2 n3 lambda W j 0)"
  by (cases "mode_gamma1 neff n1 lambda"; cases "mode_gamma2 neff n2 lambda")
    (simp_all add: field_region1_def field_region2_def mode_C1_def mode_alpha_def d_map2_def Let_def)

lemma TE_amplitude_continuous_at_W:
  assumes "mode_gamma3 neff n3 lambda \<noteq> None"
  shows "fst (field_region3 TE neff n1 n2 n3 lambda W j W) = fst (field_region2 TE neff n1 n2 n3 lambda W j W)"
  using assms
  by (cases "mode_gamma1 neff n1 lambda"; cases "mode_gamma2 neff n2 lambda")
    (auto simp: field_region3_def field_region2_def mode_C3_def mode_alpha_def d_map2_def Let_def)

text \<open>
  C8. The claim: for TE and for TM the amplitude is continuous at the region boundaries, with
  C1 = C2 cos(\<alpha>) and C3 = C2 cos(\<gamma>2 W + \<alpha>), as the comment in \<^verbatim>\<open>mode_1D\<close> states. For TM
  the code multiplies C1 by n2^2/n1^2 and C3 by n2^2/n3^2. With n = (3, 5, 3), neff = 4,
  wavelength 1, W = 1 and order 0 the core expression at x = 0 is cos(arctan(25 sqrt(7)/27))
  and the decay expression at x = 0 is 25/9 times that.
\<close>

theorem TM_amplitude_jumps_at_boundary:
  "fst (field_region2 TM 4 3 5 3 1 1 0 0) = Some (of_real (cos (arctan (25 * sqrt 7 / 27))))
   \<and> fst (field_region1 TM 4 3 5 3 1 1 0 0) = Some (of_real (cos (arctan (25 * sqrt 7 / 27)) * (25 / 9)))
   \<and> fst (field_region1 TM 4 3 5 3 1 1 0 0) \<noteq> fst (field_region2 TM 4 3 5 3 1 1 0 0)"
proof -
  have g1: "mode_gamma1 4 3 1 = Some (2 * pi * sqrt 7)"
    by (simp add: mode_gamma1_def d_sqrt_def)
  have g2: "mode_gamma2 4 5 1 = Some (6 * pi)"
    by (simp add: mode_gamma2_def d_sqrt_def sqrt_9)
  have "atan2 (2 * pi * sqrt 7 * 25) (6 * pi * 9) = arctan (25 * sqrt 7 / 27)"
    by (simp add: atan2_def)
  then have al: "mode_alpha TM 4 3 5 1 0 = Some (- arctan (25 * sqrt 7 / 27))"
    by (simp add: mode_alpha_def d_map2_def g1 g2)
  have r2: "fst (field_region2 TM 4 3 5 3 1 1 0 0) = Some (of_real (cos (arctan (25 * sqrt 7 / 27))))"
    by (simp add: field_region2_def Let_def d_map2_def g2 al mode_C2_def)
  have r1: "fst (field_region1 TM 4 3 5 3 1 1 0 0)
              = Some (of_real (cos (arctan (25 * sqrt 7 / 27)) * (25 / 9)))"
    by (simp add: field_region1_def Let_def d_map2_def g1 al mode_C1_def mode_C2_def)
  have "cos (arctan (25 * sqrt 7 / 27)) \<noteq> 0"
    by (rule cos_arctan_not_zero)
  then have "cos (arctan (25 * sqrt 7 / 27)) * (25 / 9) \<noteq> cos (arctan (25 * sqrt 7 / 27))"
    by simp
  then show ?thesis
    unfolding r1 r2 by simp
qed

text \<open>
  C10. At every sample position, in each of the three regions, the lateral companion is the
  amplitude at that position times n1/\<eta>0 for TE and times \<eta>0/n1 for TM: the box index n1
  is the only index in the factor.
\<close>

theorem lateral_component_scaled_by_box_index:
  "(\<exists>A Bn. calculate_field TE neff n1 n2 n3 lambda W j x =
        Some (A, map_option (\<lambda>a. a * of_real n1 / of_real eta0) A, Bn))
   \<and> (\<exists>A Bn. calculate_field TM neff n1 n2 n3 lambda W j x =
        Some (A, map_option (\<lambda>a. a * of_real eta0 / of_real n1) A, Bn))"
  by (simp add: calculate_field_def field_region1_def field_region2_def field_region3_def
      field_Bl_def Let_def)

section \<open>Mode order and effective index\<close>

lemma slab_TE_interior:
  assumes "1 < x" "x < t" "0 \<le> j" "j \<le> 6"
  shows "slab_equation TE 1 t 1 1 W j x =
           Some (- 2 * arctan (sqrt (t\<^sup>2 - x\<^sup>2) / sqrt (x\<^sup>2 - 1)) + of_int (j + 1) * pi
                 - 2 * pi * sqrt (t\<^sup>2 - x\<^sup>2) * W)"
proof -
  have "1 < x\<^sup>2"
    using assms(1) by (simp add: power2_eq_square less_1_mult)
  moreover have "x\<^sup>2 < t\<^sup>2"
    using assms(1,2) by (intro power_strict_mono) auto
  moreover have "int32 (j + 1) = j + 1"
    using assms(3,4) by (intro int32_id) simp_all
  ultimately show ?thesis
    by (simp add: slab_equation_def d_sqrt_def atan2_def Let_def)
qed

lemma slab_TE_low:
  assumes "1 < t" "0 \<le> j" "j \<le> 6"
  shows "slab_equation TE 1 t 1 1 W j 1 = Some (of_int j * pi - 2 * pi * sqrt (t\<^sup>2 - 1) * W)"
proof -
  have "1 < t\<^sup>2"
    using assms(1) by (simp add: power2_eq_square less_1_mult)
  moreover have "int32 (j + 1) = j + 1"
    using assms(2,3) by (intro int32_id) simp_all
  ultimately show ?thesis
    by (simp add: slab_equation_def d_sqrt_def atan2_def Let_def algebra_simps)
qed

lemma slab_TE_high:
  assumes "1 < t" "0 \<le> j" "j \<le> 6"
  shows "slab_equation TE 1 t 1 1 W j t = Some (of_int (j + 1) * pi)"
proof -
  have "1 < t\<^sup>2"
    using assms(1) by (simp add: power2_eq_square less_1_mult)
  moreover have "int32 (j + 1) = j + 1"
    using assms(2,3) by (intro int32_id) simp_all
  ultimately show ?thesis
    by (simp add: slab_equation_def d_sqrt_def atan2_def Let_def)
qed

lemma tuned_W_pos:
  assumes "1 < t"
  shows "0 < tuned_W t"
proof -
  have "((1 + t) / 2)\<^sup>2 < t\<^sup>2"
    using assms by (intro power_strict_mono) auto
  then have "0 < sqrt (t\<^sup>2 - ((1 + t) / 2)\<^sup>2)"
    by simp
  moreover have "0 < 6 * pi - 2 * arctan y" for y
    using arctan_ubound [of y] pi_gt_zero by linarith
  ultimately show ?thesis
    unfolding tuned_W_def by (intro divide_pos_pos mult_pos_pos) simp_all
qed

lemma order5_at_first_midpoint:
  assumes "1 < t"
  shows "slab_equation TE 1 t 1 1 (tuned_W t) 5 ((1 + t) / 2) = Some 0"
proof -
  have "((1 + t) / 2)\<^sup>2 < t\<^sup>2"
    using assms by (intro power_strict_mono) auto
  then have nz: "sqrt (t\<^sup>2 - ((1 + t) / 2)\<^sup>2) \<noteq> 0"
    by simp
  show ?thesis
    using assms nz by (simp add: slab_TE_interior tuned_W_def)
qed

lemma order6_at_first_midpoint:
  assumes "1 < t"
  shows "slab_equation TE 1 t 1 1 (tuned_W t) 6 ((1 + t) / 2) = Some pi"
proof -
  have "((1 + t) / 2)\<^sup>2 < t\<^sup>2"
    using assms by (intro power_strict_mono) auto
  then have nz: "sqrt (t\<^sup>2 - ((1 + t) / 2)\<^sup>2) \<noteq> 0"
    by simp
  show ?thesis
    using assms nz by (simp add: slab_TE_interior tuned_W_def)
qed

lemma order6_at_second_midpoint:
  assumes "1 < t"
  shows "slab_equation TE 1 t 1 1 (tuned_W t) 6 ((3 + t) / 4) = Some (resid6 t)"
  using assms by (simp add: slab_TE_interior resid6_def)

lemma order5_falls_back:
  assumes "3 / 2 \<le> t"
  shows "fst (solve_slab 1 t 1 1 (tuned_W t) 5) = 1"
proof -
  let ?f = "slab_equation TE 1 t 1 1 (tuned_W t) 5"
  have t: "1 < t"
    using assms by simp
  have "status (snd (bisection ?f 1 t default_tol default_max_iter)) \<noteq> CONVERGED"
  proof (cases "d_gt (d_mul (?f 1) (?f t)) 0")
    case True
    then show ?thesis
      by (simp add: bisection_invalid_range)
  next
    case False
    have "bisection_loop ?f default_tol default_max_iter 1 t (?f 1) (?f t) ((1 + t) / 2)
            (?f ((1 + t) / 2)) 0 = Inr (1, t, 0)"
      by (subst bisection_loop.simps)
        (simp add: order5_at_first_midpoint [OF t] d_gt_def d_fabs_def default_tol_def)
    then show ?thesis
      using False assms
      by (simp add: bisection_def bisection_finish_def Let_def default_tol_def)
  qed
  then show ?thesis
    by (simp add: solve_slab_def Let_def)
qed

lemma order6_converges:
  assumes "3 / 2 \<le> t" "resid6 t = 0"
  shows "fst (solve_slab 1 t 1 1 (tuned_W t) 6) = (3 + t) / 4"
proof -
  let ?f = "slab_equation TE 1 t 1 1 (tuned_W t) 6"
  let ?s = "sqrt (t\<^sup>2 - ((3 + t) / 4)\<^sup>2)"
  have t: "1 < t"
    using assms by simp
  have W: "0 < tuned_W t"
    by (rule tuned_W_pos [OF t])
  have "6 * pi < 7 * pi - 2 * arctan y" for y
    using arctan_ubound [of y] by linarith
  moreover have "2 * pi * ?s * tuned_W t
      = 7 * pi - 2 * arctan (?s / sqrt (((3 + t) / 4)\<^sup>2 - 1))"
    using assms(2) unfolding resid6_def by linarith
  ultimately have big: "6 * pi < 2 * pi * ?s * tuned_W t"
    by simp
  have "1 < ((3 + t) / 4)\<^sup>2"
    using t by (intro one_less_power) auto
  then have "t\<^sup>2 - ((3 + t) / 4)\<^sup>2 < t\<^sup>2 - 1"
    by simp
  then have "?s < sqrt (t\<^sup>2 - 1)"
    by simp
  then have "2 * pi * ?s * tuned_W t < 2 * pi * sqrt (t\<^sup>2 - 1) * tuned_W t"
    using W by simp
  then have low: "6 * pi - 2 * pi * sqrt (t\<^sup>2 - 1) * tuned_W t < 0"
    using big by linarith
  have fa: "?f 1 = Some (6 * pi - 2 * pi * sqrt (t\<^sup>2 - 1) * tuned_W t)"
    using slab_TE_low [OF t, where W = "tuned_W t" and j = 6] by simp
  have fb: "?f t = Some (7 * pi)"
    using slab_TE_high [OF t, where W = "tuned_W t" and j = 6] by simp
  have neg: "(6 * pi - 2 * pi * sqrt (t\<^sup>2 - 1) * tuned_W t) * pi < 0"
    using low by (simp add: mult_neg_pos)
  have valid: "\<not> d_gt (d_mul (?f 1) (?f t)) 0"
    using low by (simp add: fa fb d_gt_def d_mul_def mult_less_0_iff not_less mult_le_0_iff)
  have tol: "default_tol < pi" "\<not> pi < default_tol" "0 < default_tol"
    using pi_ge_two by (simp_all add: default_tol_def)
  have tolmid: "default_tol * 2 < 1 + t"
    using t by (simp add: default_tol_def)
  have iters: "0 < default_max_iter" "1 < default_max_iter"
    by (simp_all add: default_max_iter_def)
  have mid: "(1 + (1 + t) / 2) / 2 = (3 + t) / 4"
    by simp
  have step2: "bisection_loop ?f default_tol default_max_iter 1 ((1 + t) / 2) fa' (Some pi)
                 ((1 + t) / 2) (Some pi) 1
               = Inl ((3 + t) / 4, \<lparr>status = CONVERGED, iterations = 1, residual = Some 0\<rparr>)"
    for fa'
    by (subst bisection_loop.simps)
      (simp add: tol tolmid iters mid order6_at_second_midpoint [OF t] assms(2) d_gt_def d_lt_def
        d_fabs_def Let_def)
  have step1: "bisection_loop ?f default_tol default_max_iter 1 t (?f 1) (?f t) ((1 + t) / 2)
                 (?f ((1 + t) / 2)) 0
               = Inl ((3 + t) / 4, \<lparr>status = CONVERGED, iterations = 1, residual = Some 0\<rparr>)"
    by (subst bisection_loop.simps)
      (simp add: tol tolmid iters neg order6_at_first_midpoint [OF t] step2 fa d_gt_def d_lt_def
        d_fabs_def d_mul_def Let_def)
  have "bisection ?f 1 t default_tol default_max_iter
          = ((3 + t) / 4, \<lparr>status = CONVERGED, iterations = 1, residual = Some 0\<rparr>)"
    using valid step1 by (simp add: bisection_def Let_def)
  then show ?thesis
    by (simp add: solve_slab_def Let_def)
qed

lemma arctan_sqrt3: "arctan (sqrt 3) = pi / 3"
  using arctan_tan [of "pi / 3"] by (simp add: tan_60)

lemma arctan_inv_sqrt3: "arctan (1 / sqrt 3) = pi / 6"
  using arctan_tan [of "pi / 6"] by (simp add: tan_30)

lemma arctan_below_5pi12:
  assumes "x \<le> 37 / 10"
  shows "arctan x < 5 * pi / 12"
proof -
  define u where "u = 1 / sqrt 3"
  have "sqrt 3 < 47 / 27"
    by (rule real_less_lsqrt) (simp_all add: power2_eq_square)
  moreover have "0 < sqrt 3"
    by simp
  ultimately have u: "27 / 47 < u" "u < 1" "0 < u"
    unfolding u_def by (simp_all add: field_simps)
  have "arctan 1 + arctan u = arctan ((1 + u) / (1 - 1 * u))"
    using u by (intro arctan_add) simp_all
  then have c: "arctan ((1 + u) / (1 - u)) = 5 * pi / 12"
    by (simp add: arctan_one arctan_inv_sqrt3 u_def)
  have "37 / 10 * (1 - u) < 1 + u"
    using u by simp
  then have "37 / 10 < (1 + u) / (1 - u)"
    using u by (simp add: pos_less_divide_eq)
  with assms have "x < (1 + u) / (1 - u)"
    by (rule le_less_trans)
  then show ?thesis
    using arctan_monotone [of x "(1 + u) / (1 - u)"] c by simp
qed

lemma resid6_low: "resid6 (3 / 2) \<le> 0"
proof -
  define A1 where "A1 = arctan (sqrt (63 / 64) / sqrt (17 / 64))"
  define A0 where "A0 = arctan (sqrt (11 / 16) / sqrt (9 / 16))"
  define R where "R = sqrt (63 / 64) / sqrt (11 / 16)"
  have eq: "resid6 (3 / 2) = 7 * pi - 2 * A1 - R * (6 * pi - 2 * A0)"
    by (simp add: resid6_def tuned_W_def A1_def A0_def R_def power2_eq_square)
  have "sqrt 3 < sqrt (63 / 64) / sqrt (17 / 64)"
    by (simp add: real_sqrt_divide [symmetric])
  then have A1: "pi / 3 < A1"
    unfolding A1_def using arctan_monotone arctan_sqrt3 by metis
  have "sqrt (11 / 16) / sqrt (9 / 16) < sqrt 3"
    by (simp add: real_sqrt_divide [symmetric])
  then have A0: "A0 < pi / 3"
    unfolding A0_def using arctan_monotone arctan_sqrt3 by metis
  have "R = sqrt (63 / 44)"
    by (simp add: R_def real_sqrt_divide [symmetric])
  moreover have "19 / 16 \<le> sqrt (63 / 44)"
    by (rule real_le_rsqrt) (simp add: power2_eq_square)
  ultimately have R: "19 / 16 \<le> R"
    by simp
  have "19 / 16 * (16 * pi / 3) \<le> R * (6 * pi - 2 * A0)"
    using R A0 by (intro mult_mono) simp_all
  then show ?thesis
    using A1 unfolding eq by simp
qed

lemma resid6_high: "0 \<le> resid6 64"
proof -
  define A1 where "A1 = arctan (sqrt (61047 / 16) / sqrt (4473 / 16))"
  define A0 where "A0 = arctan (sqrt (12159 / 4) / sqrt (4221 / 4))"
  define R where "R = sqrt (61047 / 16) / sqrt (12159 / 4)"
  have eq: "resid6 64 = 7 * pi - 2 * A1 - R * (6 * pi - 2 * A0)"
    by (simp add: resid6_def tuned_W_def A1_def A0_def R_def power2_eq_square)
  have "sqrt (61047 / 16) / sqrt (4473 / 16) = sqrt (61047 / 4473)"
    by (simp add: real_sqrt_divide [symmetric])
  also have "sqrt (61047 / 4473) \<le> 37 / 10"
    by (rule real_le_lsqrt) (simp_all add: power2_eq_square)
  finally have "sqrt (61047 / 16) / sqrt (4473 / 16) \<le> 37 / 10" .
  then have A1: "A1 < 5 * pi / 12"
    unfolding A1_def by (rule arctan_below_5pi12)
  have "1 < sqrt (12159 / 4) / sqrt (4221 / 4)"
    by (simp add: real_sqrt_divide [symmetric])
  then have A0: "pi / 4 < A0"
    unfolding A0_def using arctan_monotone arctan_one by metis
  have "R = sqrt (61047 / 48636)"
    by (simp add: R_def real_sqrt_divide [symmetric])
  moreover have "sqrt (61047 / 48636) \<le> 37 / 33"
    by (rule real_le_lsqrt) (simp_all add: power2_eq_square)
  moreover have "0 \<le> sqrt (61047 / 48636)"
    by simp
  ultimately have R: "R \<le> 37 / 33" "0 \<le> R"
    by simp_all
  have "A0 < pi / 2"
    unfolding A0_def by (rule arctan_ubound)
  then have "0 \<le> 6 * pi - 2 * A0"
    using pi_gt_zero by linarith
  then have "R * (6 * pi - 2 * A0) \<le> 37 / 33 * (11 * pi / 2)"
    using R A0 by (intro mult_mono) simp_all
  then show ?thesis
    using A1 unfolding eq by simp
qed

lemma resid6_continuous: "continuous_on {3 / 2 .. 64} resid6"
proof -
  have a: "\<forall>t\<in>{3 / 2 .. 64::real}. sqrt (((3 + t) / 4)\<^sup>2 - 1) \<noteq> 0"
  proof
    fix t :: real
    assume "t \<in> {3 / 2 .. 64}"
    then have "1 < ((3 + t) / 4)\<^sup>2"
      by (intro one_less_power) auto
    then have "0 < sqrt (((3 + t) / 4)\<^sup>2 - 1)"
      by (simp only: real_sqrt_gt_0_iff diff_gt_0_iff_gt)
    then show "sqrt (((3 + t) / 4)\<^sup>2 - 1) \<noteq> 0"
      by (rule less_imp_neq [THEN not_sym])
  qed
  have b: "\<forall>t\<in>{3 / 2 .. 64::real}. sqrt (((1 + t) / 2)\<^sup>2 - 1) \<noteq> 0"
  proof
    fix t :: real
    assume "t \<in> {3 / 2 .. 64}"
    then have "1 < ((1 + t) / 2)\<^sup>2"
      by (intro one_less_power) auto
    then have "0 < sqrt (((1 + t) / 2)\<^sup>2 - 1)"
      by (simp only: real_sqrt_gt_0_iff diff_gt_0_iff_gt)
    then show "sqrt (((1 + t) / 2)\<^sup>2 - 1) \<noteq> 0"
      by (rule less_imp_neq [THEN not_sym])
  qed
  have c: "\<forall>t\<in>{3 / 2 .. 64::real}. 2 * pi * sqrt (t\<^sup>2 - ((1 + t) / 2)\<^sup>2) \<noteq> 0"
  proof
    fix t :: real
    assume "t \<in> {3 / 2 .. 64}"
    then have "((1 + t) / 2)\<^sup>2 < t\<^sup>2"
      by (intro power_strict_mono) auto
    then have "0 < sqrt (t\<^sup>2 - ((1 + t) / 2)\<^sup>2)"
      by (simp only: real_sqrt_gt_0_iff diff_gt_0_iff_gt)
    then have "0 < 2 * pi * sqrt (t\<^sup>2 - ((1 + t) / 2)\<^sup>2)"
      by (intro mult_pos_pos) simp_all
    then show "2 * pi * sqrt (t\<^sup>2 - ((1 + t) / 2)\<^sup>2) \<noteq> 0"
      by (rule less_imp_neq [THEN not_sym])
  qed
  have d: "\<forall>t\<in>{3 / 2 .. 64::real}. (4::real) \<noteq> 0" "\<forall>t\<in>{3 / 2 .. 64::real}. (2::real) \<noteq> 0"
    by simp_all
  show ?thesis
    unfolding resid6_def [abs_def] tuned_W_def [abs_def]
    by (intro continuous_intros a b c d)
qed

lemma resid6_root: "\<exists>t. 3 / 2 \<le> t \<and> t \<le> 64 \<and> resid6 t = 0"
proof -
  have "\<exists>t\<ge>3 / 2. t \<le> 64 \<and> resid6 t = 0"
    using resid6_low resid6_high resid6_continuous by (intro IVT') simp_all
  then show ?thesis
    by blast
qed

text \<open>
  C9. The claim: for a fixed geometry with n2 > max(n1, n3) each component of \<open>solve_slab\<close>
  is non-increasing in the mode order. There is a symmetric slab, with outer index 1, a core
  index between 1.5 and 64, wavelength 1 and a positive thickness, for which the TE component
  is the fallback 1 at order 5 and the larger value (3 + t)/4 at order 6: the root of order 5
  sits on the first midpoint of the bracket, where the loop of the root finder is skipped and
  the status after the loop is DIVERGED, and the root of order 6 sits on the second midpoint,
  where the loop returns CONVERGED.
\<close>

theorem solve_slab_not_monotone_in_order:
  "\<exists>n1 n2 n3 lambda W j. max n1 n3 < n2 \<and> 0 < lambda \<and> 0 < W \<and> 0 \<le> j
     \<and> fst (solve_slab n1 n2 n3 lambda W j) < fst (solve_slab n1 n2 n3 lambda W (j + 1))"
proof -
  obtain t where t: "3 / 2 \<le> t" "resid6 t = 0"
    using resid6_root by blast
  have "1 < t"
    using t(1) by simp
  then have "0 < tuned_W t"
    by (rule tuned_W_pos)
  moreover have "fst (solve_slab 1 t 1 1 (tuned_W t) 5) < fst (solve_slab 1 t 1 1 (tuned_W t) (5 + 1))"
    using order5_falls_back [OF t(1)] order6_converges [OF t] t(1) by simp
  ultimately have "max 1 1 < t \<and> (0::real) < 1 \<and> 0 < tuned_W t \<and> (0::int) \<le> 5
     \<and> fst (solve_slab 1 t 1 1 (tuned_W t) 5) < fst (solve_slab 1 t 1 1 (tuned_W t) (5 + 1))"
    using \<open>1 < t\<close> by simp
  then show ?thesis
    by blast
qed

end
